theory Spec2Isabelle
  imports Main "HOL-Library.Multiset"
begin

section \<open>The project collection of \<open>composables/useProjectStores.js\<close>\<close>

text \<open>
  The composable keeps an ordered list of project stores, mirrors it from the
  browser's local storage and offers create, import, delete, hydrate and
  reorder operations. Each operation of the source is a function from the
  state before the call to the state after it (with the returned value where
  there is one). The debounce timers of the source (2000 ms for the automatic
  write-back of a store, 2500 ms around \<open>syncTabOrder\<close>) are not part of the
  model: an operation is described from the moment its body runs.
\<close>

subsection \<open>JavaScript values\<close>

text \<open>
  The values that travel through import and templates: what \<open>JSON.parse\<close> or
  \<open>cloneDeep\<close> can hand over. An object is its list of own properties.
\<close>

datatype js =
    Undefined
  | Null
  | Bool bool
  | Num int
  | Str string
  | Arr "js list"
  | Obj "(string \<times> js) list"

datatype js_error = TypeError | SyntaxError

text \<open>How a call ends: it returns, or an exception leaves it.\<close>

datatype outcome = Returned | Threw js_error

text \<open>
  Reading a property, \<open>v.key\<close>: a \<open>TypeError\<close> on \<open>undefined\<close> and \<open>null\<close>,
  the own property of an object, and \<open>undefined\<close> where there is none (the
  keys read here, \<open>page\<close>, \<open>settings\<close>, \<open>tab\<close>, \<open>name\<close> and \<open>orientation\<close>,
  are no inherited properties of objects, arrays, strings, numbers or booleans).
\<close>

fun get :: "js \<Rightarrow> string \<Rightarrow> js_error + js" where
  "get Undefined key = Inl TypeError"
| "get Null key = Inl TypeError"
| "get (Obj props) key = (case map_of props key of Some v \<Rightarrow> Inr v | None \<Rightarrow> Inr Undefined)"
| "get v key = Inr Undefined"

text \<open>Writing a property of an object, \<open>obj.key = v\<close>, keeping the property order.\<close>

fun put :: "string \<Rightarrow> js \<Rightarrow> (string \<times> js) list \<Rightarrow> (string \<times> js) list" where
  "put key v [] = [(key, v)]"
| "put key v ((k, old) # props) =
     (if k = key then (key, v) # props else (k, old) # put key v props)"

text \<open>
  \<open>v.key = x\<close> in module (strict) code: a \<open>TypeError\<close> on everything that is
  not an object. An array would take the property without changing its
  elements.
\<close>

fun set_prop :: "js \<Rightarrow> string \<Rightarrow> js \<Rightarrow> js_error + js" where
  "set_prop (Obj props) key x = Inr (Obj (put key x props))"
| "set_prop (Arr xs) key x = Inr (Arr xs)"
| "set_prop v key x = Inl TypeError"

text \<open>lodash \<open>has(object, key)\<close>: the key is an own property of an object.\<close>

fun has :: "js \<Rightarrow> string \<Rightarrow> bool" where
  "has (Obj props) key = (key \<in> set (map fst props))"
| "has v key = False"

text \<open>lodash \<open>startsWith(string, target)\<close> and \<open>String.prototype.startsWith\<close>.\<close>

definition startsWith :: "string \<Rightarrow> string \<Rightarrow> bool" where
  "startsWith s target = (take (length target) s = target)"

text \<open>
  \<open>Array.prototype.splice(start, deleteCount)\<close>, the array that remains: a
  negative start counts from the end, a start beyond the end removes nothing.
\<close>

definition array_splice :: "'a list \<Rightarrow> int \<Rightarrow> nat \<Rightarrow> 'a list" where
  "array_splice xs start deleteCount =
     (let n = int (length xs);
          s = nat (if start < 0 then max (n + start) 0 else min start n)
      in take s xs @ drop (s + deleteCount) xs)"

text \<open>lodash \<open>sortBy\<close>: a stable sort, ascending in the value of the iteratee.\<close>

definition sortBy :: "'a list \<Rightarrow> ('a \<Rightarrow> int) \<Rightarrow> 'a list" where
  "sortBy xs iteratee = sort_key iteratee xs"

subsection \<open>Projects and the state of the composable\<close>

text \<open>
  Modelled from the spec: the state of a project record, which
  \<open>composables/useProjectStoreFactory.js\<close> (not among the sources) declares.
  The spec gives a project the fields \<open>tab\<close> (id, name, order, created_at),
  \<open>page\<close> and \<open>settings\<close>. \<open>order\<close> may be absent (\<open>None\<close>); \<open>created_at\<close> is
  taken as a number (a time stamp), so that the two are compared as numbers.
\<close>

record tab_state =
  tab_id :: string
  tab_name :: js
  tab_order :: "int option"
  tab_created_at :: int

record project_state =
  tab :: tab_state
  page :: js
  settings :: js

text \<open>
  What a call finds around it: \<open>$config.isDesktop\<close>, the value \<open>uuid()\<close>
  returns when it is asked (at most once in each operation), and the state the
  store factory gives a record that has no persisted copy.
\<close>

record env =
  isDesktop :: bool
  uuid :: string
  defaults :: project_state

text \<open>
  The state the operations work on. A project store is an object shared by
  reference, and the spec has it "keyed by a namespaced identifier":
  \<open>projects\<close> holds the names of the stores, in order, and \<open>stores\<close> holds the
  state of each store by its name, so that a store held twice is one object. \<open>localStorage\<close> lists the stored entries in the order
  \<open>Object.keys\<close> gives them. \<open>alerts\<close> are the \<open>(level, message)\<close> pairs
  emitted on \<open>$bus\<close>, \<open>console\<close> the lines of \<open>console.error\<close>, oldest first.
\<close>

record world =
  projects :: "string list"
  stores :: "string \<Rightarrow> project_state"
  localStorage :: "(string \<times> project_state) list"
  currentTab :: "string option"
  alerts :: "(string \<times> string) list"
  console :: "string list"

definition emit_alert :: "string \<Rightarrow> string \<Rightarrow> world \<Rightarrow> world" where
  "emit_alert level message w = w\<lparr>alerts := alerts w @ [(level, message)]\<rparr>"

definition console_error :: "string \<Rightarrow> world \<Rightarrow> world" where
  "console_error line w = w\<lparr>console := console w @ [line]\<rparr>"

subsection \<open>The collaborators\<close>

text \<open>
  Modelled from the spec: the state a store gets when it is loaded, from
  \<open>load\<close> of the persistent store (\<open>composables/useProjectStoreFactory.js\<close>,
  not among the sources). The spec: "load existing state if the key
  pre-exists, else defaults".
\<close>

definition persisted :: "env \<Rightarrow> world \<Rightarrow> string \<Rightarrow> project_state" where
  "persisted c w name =
     (case map_of (localStorage w) name of Some state \<Rightarrow> state | None \<Rightarrow> defaults c)"

text \<open>
  Modelled from the spec: the factory call and \<open>store.load()\<close> of the
  persistent store (same file), which leave the store of that name with its
  persisted state, or the defaults.
\<close>

definition load :: "env \<Rightarrow> string \<Rightarrow> world \<Rightarrow> world" where
  "load c name w = w\<lparr>stores := (stores w)(name := persisted c w name)\<rparr>"

text \<open>
  Modelled from the spec: \<open>clear\<close> of the persistent store (same file). The
  spec: the store is told "to clear its storage". The entry of the store is
  removed from local storage.
\<close>

definition clear :: "string \<Rightarrow> world \<Rightarrow> world" where
  "clear name w = w\<lparr>localStorage := filter (\<lambda>entry. fst entry \<noteq> name) (localStorage w)\<rparr>"

text \<open>
  Modelled from the spec: \<open>$dispose\<close> of the persistent store (same file).
  The spec: the store is told to "release resources". These are the
  subscriptions of the store, which the state below does not carry; the object
  stays readable for whoever still holds it.
\<close>

definition dispose :: "string \<Rightarrow> world \<Rightarrow> world" where
  "dispose name w = w"

text \<open>
  Modelled from the spec: \<open>setTabFromProject\<close> of \<open>composables/useCurrentTab.js\<close>
  (not among the sources). The spec: the current project is "tracked
  externally by TabTracker via tab id".
\<close>

definition setTabFromProject :: "string \<Rightarrow> world \<Rightarrow> world" where
  "setTabFromProject project w = w\<lparr>currentTab := Some (tab_id (tab (stores w project)))\<rparr>"

text \<open>
  \<open>store.$patch(mutator)\<close>: the mutator works on the state of the store in
  place, so what it assigned before an exception stays assigned.
\<close>

definition patch ::
  "string \<Rightarrow> (project_state \<Rightarrow> project_state \<times> outcome) \<Rightarrow> world \<Rightarrow> world \<times> outcome" where
  "patch project mutator w =
     (let (st, out) = mutator (stores w project)
      in (w\<lparr>stores := (stores w)(project := st)\<rparr>, out))"

subsection \<open>The operations of the source\<close>

definition namespace :: string where
  "namespace = ''pages/''"

definition getPagesFromStorage :: "world \<Rightarrow> string list" where
  "getPagesFromStorage w = filter (\<lambda>key. startsWith key namespace) (map fst (localStorage w))"

definition canAddNewProject :: "env \<Rightarrow> world \<Rightarrow> bool" where
  "canAddNewProject c w = (isDesktop c \<or> length (projects w) < 2)"

text \<open>
  \<open>makeProjectStore(id)\<close> returns the store, here its name. The subscription
  of the debounced write-back is a timer and left out.
\<close>

definition makeProjectStore :: "env \<Rightarrow> string option \<Rightarrow> world \<Rightarrow> string \<times> world" where
  "makeProjectStore c ident w =
     (let i = (case ident of None \<Rightarrow> uuid c | Some given \<Rightarrow> given);
          name = (if startsWith i namespace then i else namespace @ i)
      in (name, load c name w))"

text \<open>\<open>addNewProject(id)\<close>: \<open>None\<close> is the empty return of the blocked branch.\<close>

definition addNewProject :: "env \<Rightarrow> string option \<Rightarrow> world \<Rightarrow> string option \<times> world" where
  "addNewProject c ident w =
     (if \<not> canAddNewProject c w
      then (None, emit_alert ''danger'' ''Download the desktop app to unlock more tabs.'' w)
      else
        (let (newProject, w1) = makeProjectStore c ident w;
             w2 = w1\<lparr>projects := projects w1 @ [newProject]\<rparr>;
             w3 = setTabFromProject newProject w2
         in (Some newProject, w3)))"

text \<open>The body of the \<open>forEach\<close> over the required keys of an import.\<close>

definition check_required :: "js \<Rightarrow> world \<Rightarrow> string \<Rightarrow> world" where
  "check_required data w requiredKey =
     (if \<not> has data requiredKey
      then console_error
             (''The configuration file is missing the data key ['' @ requiredKey @ ''].'')
             (emit_alert ''danger''
                ''Error importing configuration. Required data is missing.'' w)
      else w)"

text \<open>
  The mutator of \<open>importNewProject\<close>: three assignments in the order of the
  source, each of which can throw when it reads through \<open>undefined\<close> or \<open>null\<close>.
\<close>

definition import_mutator :: "js \<Rightarrow> project_state \<Rightarrow> project_state \<times> outcome" where
  "import_mutator data state =
     (case get data ''page'' of
        Inl e \<Rightarrow> (state, Threw e)
      | Inr data_page \<Rightarrow>
          (let state1 = state\<lparr>page := data_page\<rparr> in
           case get data ''settings'' of
             Inl e \<Rightarrow> (state1, Threw e)
           | Inr data_settings \<Rightarrow>
               (let state2 = state1\<lparr>settings := data_settings\<rparr> in
                case get data ''tab'' of
                  Inl e \<Rightarrow> (state2, Threw e)
                | Inr data_tab \<Rightarrow>
                    (case get data_tab ''name'' of
                       Inl e \<Rightarrow> (state2, Threw e)
                     | Inr data_tab_name \<Rightarrow>
                         (state2\<lparr>tab := (tab state2)\<lparr>tab_name := data_tab_name\<rparr>\<rparr>,
                          Returned)))))"

text \<open>
  A file of the picker: \<open>new Response(file).json()\<close> gives the parsed value,
  or rejects with a \<open>SyntaxError\<close> when the text is not JSON (\<open>None\<close>).
\<close>

type_synonym json_file = "js option"

text \<open>
  \<open>importNewProject()\<close>, given what the file picker resolves to. An exception
  inside the asynchronous function rejects the promise the caller holds.
\<close>

definition importNewProject :: "env \<Rightarrow> json_file list \<Rightarrow> world \<Rightarrow> world \<times> outcome" where
  "importNewProject c files w =
     (case files of
        [] \<Rightarrow> (w, Returned)
      | file # _ \<Rightarrow>
          (case file of
             None \<Rightarrow> (w, Threw SyntaxError)
           | Some data \<Rightarrow>
               (let w1 = foldl (check_required data) w [''tab'', ''page'', ''settings''];
                    (project, w2) = addNewProject c None w1
                in case project of
                     None \<Rightarrow> (w2, Returned)
                   | Some p \<Rightarrow> patch p (import_mutator data) w2)))"

text \<open>
  The mutator of \<open>addProjectFromTemplate\<close>: the assignments of the import,
  then the port of the old orientation values.
\<close>

definition template_mutator :: "js \<Rightarrow> project_state \<Rightarrow> project_state \<times> outcome" where
  "template_mutator data state =
     (case import_mutator data state of
        (state3, Threw e) \<Rightarrow> (state3, Threw e)
      | (state3, Returned) \<Rightarrow>
          (case get (page state3) ''orientation'' of
             Inl e \<Rightarrow> (state3, Threw e)
           | Inr orientation \<Rightarrow>
               if orientation \<in> set [Str ''portrait'', Str ''landscape'']
               then (case set_prop (page state3) ''orientation'' (Str ''left'') of
                       Inl e \<Rightarrow> (state3, Threw e)
                     | Inr new_page \<Rightarrow> (state3\<lparr>page := new_page\<rparr>, Returned))
               else (state3, Returned)))"

text \<open>\<open>addProjectFromTemplate(template)\<close>; \<open>cloneDeep\<close> copies the value.\<close>

definition addProjectFromTemplate :: "env \<Rightarrow> js \<Rightarrow> world \<Rightarrow> world \<times> outcome" where
  "addProjectFromTemplate c template w =
     (let data = template;
          (project, w1) = addNewProject c None w
      in case project of
           None \<Rightarrow> (w1, Returned)
         | Some p \<Rightarrow> patch p (template_mutator data) w1)"

text \<open>
  \<open>deleteProject(project, index)\<close>: the store given is cleared and disposed,
  the entry at \<open>index\<close> is spliced out, and then either a new project is added
  (empty list) or the first project becomes the current one.
\<close>

definition deleteProject :: "env \<Rightarrow> string \<Rightarrow> int \<Rightarrow> world \<Rightarrow> world" where
  "deleteProject c project index w =
     (let w1 = dispose project (clear project w);
          w2 = w1\<lparr>projects := array_splice (projects w1) index 1\<rparr>
      in case projects w2 of
           [] \<Rightarrow> snd (addNewProject c None w2)
         | first # _ \<Rightarrow> setTabFromProject first w2)"

text \<open>The \<open>map\<close> of \<open>hydrateFromStorage\<close>: one store per key, made in order.\<close>

fun make_stores :: "env \<Rightarrow> string list \<Rightarrow> world \<Rightarrow> string list \<times> world" where
  "make_stores c [] w = ([], w)"
| "make_stores c (key # keys) w =
     (let (store, w1) = makeProjectStore c (Some key) w;
          (rest, w2) = make_stores c keys w1
      in (store # rest, w2))"

text \<open>The iteratee of the sort: \<open>tab.order ?? tab.created_at\<close>.\<close>

definition order_key :: "tab_state \<Rightarrow> int" where
  "order_key t = (case tab_order t of Some n \<Rightarrow> n | None \<Rightarrow> tab_created_at t)"

definition hydrateFromStorage :: "env \<Rightarrow> world \<Rightarrow> world" where
  "hydrateFromStorage c w =
     (let (stored, w1) = make_stores c (getPagesFromStorage w) w
      in w1\<lparr>projects := sortBy stored (\<lambda>store. order_key (tab (stores w1 store)))\<rparr>)"

text \<open>
  The body of \<open>syncTabOrder\<close>, once the debounce lets it run: every project,
  in order, is patched with its index.
\<close>

definition set_order :: "world \<Rightarrow> nat \<times> string \<Rightarrow> world" where
  "set_order w entry =
     fst (patch (snd entry)
            (\<lambda>state. (state\<lparr>tab := (tab state)\<lparr>tab_order := Some (int (fst entry))\<rparr>\<rparr>, Returned))
            w)"

definition syncTabOrder :: "world \<Rightarrow> world" where
  "syncTabOrder w = foldl set_order w (enumerate 0 (projects w))"

subsection \<open>Example states\<close>

text \<open>
  A project as the factory might give it, the web and the desktop build, and a
  few small states on which the theorems below are exercised.
\<close>

definition blank_project :: project_state where
  "blank_project =
     \<lparr>tab = \<lparr>tab_id = ''t0'', tab_name = Null, tab_order = None, tab_created_at = 0\<rparr>,
      page = Obj [], settings = Obj []\<rparr>"

definition web :: env where
  "web = \<lparr>isDesktop = False, uuid = ''u1'', defaults = blank_project\<rparr>"

definition desktop :: env where
  "desktop = \<lparr>isDesktop = True, uuid = ''u1'', defaults = blank_project\<rparr>"

definition world_of :: "string list \<Rightarrow> world" where
  "world_of ps =
     \<lparr>projects = ps, stores = (\<lambda>name. blank_project),
      localStorage = map (\<lambda>p. (p, blank_project)) ps,
      currentTab = None, alerts = [], console = []\<rparr>"

text \<open>
  Stored projects: \<open>project_at order created_at\<close>; a storage with three
  projects and a foreign key; a storage with two projects of the same order.
\<close>

definition project_at :: "int option \<Rightarrow> int \<Rightarrow> project_state" where
  "project_at ord created =
     blank_project\<lparr>tab := (tab blank_project)\<lparr>tab_order := ord, tab_created_at := created\<rparr>\<rparr>"

definition stored_world :: world where
  "stored_world =
     \<lparr>projects = [], stores = (\<lambda>name. blank_project),
      localStorage =
        [(''pages/b'', project_at (Some 1) 20), (''theme'', blank_project),
         (''pages/a'', project_at (Some 0) 30), (''pages/c'', project_at None 7)],
      currentTab = None, alerts = [], console = []\<rparr>"

definition tied_world :: world where
  "tied_world =
     \<lparr>projects = [], stores = (\<lambda>name. blank_project),
      localStorage =
        [(''pages/a'', project_at (Some 0) 5), (''pages/b'', project_at (Some 0) 3)],
      currentTab = None, alerts = [], console = []\<rparr>"

text \<open>
  The order the spec describes for the collection after hydration: ascending
  in the sort key, and projects of the same sort key by \<open>created_at\<close>.
\<close>

definition ordered_with_ties_by_created_at :: "world \<Rightarrow> bool" where
  "ordered_with_ties_by_created_at w =
     sorted_wrt
       (\<lambda>p q. order_key (tab (stores w p)) < order_key (tab (stores w q)) \<or>
              (order_key (tab (stores w p)) = order_key (tab (stores w q)) \<and>
               tab_created_at (tab (stores w p)) \<le> tab_created_at (tab (stores w q))))
       (projects w)"

text \<open>
  The collection in which the \<open>tab.order\<close> of the project at every index is
  that index.
\<close>

definition order_is_index :: "world \<Rightarrow> bool" where
  "order_is_index w =
     (map (\<lambda>p. tab_order (tab (stores w p))) (projects w) =
      map (\<lambda>i. Some (int i)) [0..<length (projects w)])"

text \<open>
  The state after \<open>addNewProject('a')\<close> was called twice on the web build,
  starting without projects: the second call is handed the store of the first.
\<close>

definition twice_added :: world where
  "twice_added =
     snd (addNewProject web (Some ''a'') (snd (addNewProject web (Some ''a'') (world_of []))))"

text \<open>
  Import files: one saved with the old orientation value, one without \<open>tab\<close>,
  one with \<open>tab\<close> and \<open>page\<close> and no \<open>settings\<close>.
\<close>

definition legacy_file :: js where
  "legacy_file =
     Obj [(''tab'', Obj [(''name'', Str ''Old'')]),
          (''page'', Obj [(''orientation'', Str ''portrait'')]),
          (''settings'', Obj [])]"

definition file_without_tab :: js where
  "file_without_tab = Obj [(''page'', Obj [(''orientation'', Str ''left'')]), (''settings'', Obj [])]"

definition file_without_settings :: js where
  "file_without_settings =
     Obj [(''tab'', Obj [(''name'', Str ''Imported'')]),
          (''page'', Obj [(''orientation'', Str ''portrait'')])]"

section \<open>Properties\<close>

subsection \<open>What the steps leave alone\<close>

lemma projects_emit_alert [simp]: "projects (emit_alert l m w) = projects w"
  by (simp add: emit_alert_def)

lemma projects_console_error [simp]: "projects (console_error l w) = projects w"
  by (simp add: console_error_def)

lemma projects_load [simp]: "projects (load c n w) = projects w"
  by (simp add: load_def)

lemma load_frame [simp]:
  "localStorage (load c n w) = localStorage w"
  "alerts (load c n w) = alerts w"
  "stores (load c n w) = (stores w)(n := persisted c w n)"
  by (simp_all add: load_def)

lemma persisted_load [simp]: "persisted c (load c n w) = persisted c w"
  by (simp add: persisted_def fun_eq_iff)

lemma projects_clear [simp]: "projects (clear n w) = projects w"
  by (simp add: clear_def)

lemma projects_dispose [simp]: "projects (dispose n w) = projects w"
  by (simp add: dispose_def)

lemma projects_setTabFromProject [simp]: "projects (setTabFromProject p w) = projects w"
  by (simp add: setTabFromProject_def)

lemma addNewProject_blocked:
  "\<not> canAddNewProject c w \<Longrightarrow>
   addNewProject c ident w =
     (None, emit_alert ''danger'' ''Download the desktop app to unlock more tabs.'' w)"
  by (simp add: addNewProject_def)

lemma addNewProject_allowed:
  "canAddNewProject c w \<Longrightarrow>
   addNewProject c ident w =
     (Some (fst (makeProjectStore c ident w)),
      setTabFromProject (fst (makeProjectStore c ident w))
        ((snd (makeProjectStore c ident w))
           \<lparr>projects := projects w @ [fst (makeProjectStore c ident w)]\<rparr>))"
  by (simp add: addNewProject_def makeProjectStore_def Let_def)

lemma projects_addNewProject_allowed:
  "canAddNewProject c w \<Longrightarrow>
   projects (snd (addNewProject c ident w)) = projects w @ [fst (makeProjectStore c ident w)]"
  by (simp add: addNewProject_allowed makeProjectStore_def Let_def)

lemma alerts_addNewProject_allowed:
  "canAddNewProject c w \<Longrightarrow> alerts (snd (addNewProject c ident w)) = alerts w"
  by (simp add: addNewProject_allowed setTabFromProject_def makeProjectStore_def Let_def load_def)

subsection \<open>The plan limit of \<open>addNewProject\<close>\<close>

text \<open>
  C2. On a build that is not the desktop build, with two or more projects in
  the collection, \<open>addNewProject\<close> returns no project, emits one alert (the
  alerts afterwards are those before and the plan-limit alert) and leaves the
  collection and the stores as they were. On the desktop build it returns the
  project it made, appends it to the collection and emits no alert, however
  many projects there are.
\<close>

theorem addNewProject_plan_limit:
  "(\<not> isDesktop c \<and> 2 \<le> length (projects w) \<longrightarrow>
      fst (addNewProject c ident w) = None \<and>
      alerts (snd (addNewProject c ident w)) =
        alerts w @ [(''danger'', ''Download the desktop app to unlock more tabs.'')] \<and>
      projects (snd (addNewProject c ident w)) = projects w \<and>
      stores (snd (addNewProject c ident w)) = stores w) \<and>
   (isDesktop c \<longrightarrow>
      fst (addNewProject c ident w) = Some (fst (makeProjectStore c ident w)) \<and>
      projects (snd (addNewProject c ident w)) =
        projects w @ [fst (makeProjectStore c ident w)] \<and>
      alerts (snd (addNewProject c ident w)) = alerts w)"
proof (intro conjI impI)
  assume "\<not> isDesktop c \<and> 2 \<le> length (projects w)"
  then have blocked: "\<not> canAddNewProject c w"
    by (simp add: canAddNewProject_def)
  show "fst (addNewProject c ident w) = None"
    by (simp add: addNewProject_blocked [OF blocked])
  show "alerts (snd (addNewProject c ident w)) =
        alerts w @ [(''danger'', ''Download the desktop app to unlock more tabs.'')]"
    by (simp add: addNewProject_blocked [OF blocked] emit_alert_def)
  show "projects (snd (addNewProject c ident w)) = projects w"
    by (simp add: addNewProject_blocked [OF blocked])
  show "stores (snd (addNewProject c ident w)) = stores w"
    by (simp add: addNewProject_blocked [OF blocked] emit_alert_def)
next
  assume "isDesktop c"
  then have can: "canAddNewProject c w"
    by (simp add: canAddNewProject_def)
  show "fst (addNewProject c ident w) = Some (fst (makeProjectStore c ident w))"
    by (simp add: addNewProject_allowed [OF can])
  show "projects (snd (addNewProject c ident w)) = projects w @ [fst (makeProjectStore c ident w)]"
    by (rule projects_addNewProject_allowed [OF can])
  show "alerts (snd (addNewProject c ident w)) = alerts w"
    by (rule alerts_addNewProject_allowed [OF can])
qed

theorem addNewProject_plan_limit_witness:
  "\<not> isDesktop web \<and> 2 \<le> length (projects (world_of [''pages/a'', ''pages/b''])) \<and>
   fst (addNewProject web None (world_of [''pages/a'', ''pages/b''])) = None \<and>
   alerts (snd (addNewProject web None (world_of [''pages/a'', ''pages/b'']))) =
     [(''danger'', ''Download the desktop app to unlock more tabs.'')] \<and>
   projects (snd (addNewProject web None (world_of [''pages/a'', ''pages/b'']))) =
     [''pages/a'', ''pages/b''] \<and>
   isDesktop desktop \<and>
   fst (addNewProject desktop None (world_of [''pages/a'', ''pages/b''])) = Some ''pages/u1'' \<and>
   projects (snd (addNewProject desktop None (world_of [''pages/a'', ''pages/b'']))) =
     [''pages/a'', ''pages/b'', ''pages/u1''] \<and>
   alerts (snd (addNewProject desktop None (world_of [''pages/a'', ''pages/b'']))) = []"
  using addNewProject_plan_limit [of web "world_of [''pages/a'', ''pages/b'']" None]
    addNewProject_plan_limit [of desktop "world_of [''pages/a'', ''pages/b'']" None]
  by (simp add: world_of_def web_def desktop_def makeProjectStore_def Let_def startsWith_def
      namespace_def)

subsection \<open>Deleting a project\<close>

lemma length_take_drop_one:
  "length (take s xs @ drop (s + 1) xs) = length xs \<or>
   Suc (length (take s xs @ drop (s + 1) xs)) = length xs"
  by (cases "s < length xs") auto

lemma length_array_splice_one:
  "length (array_splice xs i 1) = length xs \<or> Suc (length (array_splice xs i 1)) = length xs"
  unfolding array_splice_def Let_def by (rule length_take_drop_one)

text \<open>
  C1. Whatever the state, the store and the index given, the collection is
  not empty after \<open>deleteProject\<close>; a collection of one project is a collection
  of one project afterwards; and when its only project is the one spliced out
  (index 0 or -1), what remains is the project \<open>addNewProject\<close> has just made.
\<close>

theorem deleteProject_never_empty:
  "projects (deleteProject c project index w) \<noteq> [] \<and>
   (length (projects w) = 1 \<longrightarrow> length (projects (deleteProject c project index w)) = 1) \<and>
   (length (projects w) = 1 \<and> (index = 0 \<or> index = - 1) \<longrightarrow>
      projects (deleteProject c project index w) = [fst (makeProjectStore c None w)])"
proof -
  define w2 where
    "w2 = (dispose project (clear project w))\<lparr>projects := array_splice (projects w) index 1\<rparr>"
  have p2: "projects w2 = array_splice (projects w) index 1"
    by (simp add: w2_def)
  have del: "deleteProject c project index w =
      (case projects w2 of [] \<Rightarrow> snd (addNewProject c None w2)
       | first # _ \<Rightarrow> setTabFromProject first w2)"
    by (simp add: deleteProject_def Let_def w2_def cong: list.case_cong)
  have name: "fst (makeProjectStore c None w2) = fst (makeProjectStore c None w)"
    by (simp add: makeProjectStore_def Let_def)
  have hit: "projects w2 = []" if "length (projects w) = 1" "index = 0 \<or> index = - 1"
    using that by (auto simp: p2 array_splice_def Let_def)
  show ?thesis
  proof (cases "projects w2")
    case Nil
    then have "canAddNewProject c w2" by (simp add: canAddNewProject_def)
    then have "projects (snd (addNewProject c None w2)) =
        projects w2 @ [fst (makeProjectStore c None w2)]"
      by (rule projects_addNewProject_allowed)
    with Nil show ?thesis by (simp add: del name)
  next
    case (Cons x xs)
    then have eq: "projects (deleteProject c project index w) = x # xs"
      by (simp add: del)
    from length_array_splice_one [of "projects w" index] Cons p2
    have "length (projects w) = 1 \<longrightarrow> xs = []" by auto
    with eq Cons hit show ?thesis by auto
  qed
qed

theorem deleteProject_never_empty_witness:
  "length (projects (world_of [''pages/a''])) = 1 \<and>
   projects (deleteProject web ''pages/a'' 0 (world_of [''pages/a''])) = [''pages/u1'']"
  using deleteProject_never_empty [of web "''pages/a''" 0 "world_of [''pages/a'']"]
  by (simp add: world_of_def web_def makeProjectStore_def Let_def startsWith_def namespace_def)

subsection \<open>Import, templates and the plan limit\<close>

lemma projects_patch [simp]: "projects (fst (patch p m w)) = projects w"
  by (simp add: patch_def split: prod.splits)

lemma alerts_patch [simp]: "alerts (fst (patch p m w)) = alerts w"
  by (simp add: patch_def split: prod.splits)

lemma snd_patch [simp]: "snd (patch p m w) = snd (m (stores w p))"
  by (simp add: patch_def split: prod.splits)

lemma stores_patch [simp]: "stores (fst (patch p m w)) = (stores w)(p := fst (m (stores w p)))"
  by (simp add: patch_def split: prod.splits)

lemma check_required_frame [simp]:
  "projects (check_required data w k) = projects w"
  "stores (check_required data w k) = stores w"
  "localStorage (check_required data w k) = localStorage w"
  "currentTab (check_required data w k) = currentTab w"
  by (simp_all add: check_required_def emit_alert_def console_error_def)

lemma alerts_check_required:
  "alerts (check_required data w k) =
     alerts w @ (if has data k then []
                 else [(''danger'', ''Error importing configuration. Required data is missing.'')])"
  by (simp add: check_required_def emit_alert_def console_error_def)

lemma foldl_check_required_frame [simp]:
  "projects (foldl (check_required data) w ks) = projects w"
  "stores (foldl (check_required data) w ks) = stores w"
  "localStorage (foldl (check_required data) w ks) = localStorage w"
  "currentTab (foldl (check_required data) w ks) = currentTab w"
  by (induction ks arbitrary: w) simp_all

lemma alerts_foldl_check_required:
  "alerts (foldl (check_required data) w ks) =
     alerts w @ map (\<lambda>k. (''danger'', ''Error importing configuration. Required data is missing.''))
                  (filter (\<lambda>k. \<not> has data k) ks)"
  by (induction ks arbitrary: w) (simp_all add: alerts_check_required)

lemma canAddNewProject_cong:
  "projects w' = projects w \<Longrightarrow> canAddNewProject c w' = canAddNewProject c w"
  by (simp add: canAddNewProject_def)

text \<open>
  C8. When the picker resolves to no file, \<open>importNewProject\<close> returns and the
  state is the state before the call: no project, no alert, no log line, the
  collection unchanged.
\<close>

theorem importNewProject_no_file:
  "importNewProject c [] w = (w, Returned)"
  by (simp add: importNewProject_def)

lemma importNewProject_blocked:
  assumes "\<not> canAddNewProject c w"
  shows "importNewProject c (Some data # others) w =
     (emit_alert ''danger'' ''Download the desktop app to unlock more tabs.''
        (foldl (check_required data) w [''tab'', ''page'', ''settings'']), Returned)"
proof -
  have blocked: "\<not> canAddNewProject c (foldl (check_required data) w [''tab'', ''page'', ''settings''])"
    using assms by (simp add: canAddNewProject_def)
  show ?thesis
    by (simp only: importNewProject_def Let_def addNewProject_blocked [OF blocked] list.case
        option.case prod.case)
qed

lemma importNewProject_allowed:
  assumes "canAddNewProject c w"
  shows "importNewProject c (Some data # others) w =
     patch (fst (makeProjectStore c None w)) (import_mutator data)
       (snd (addNewProject c None (foldl (check_required data) w [''tab'', ''page'', ''settings''])))"
proof -
  let ?w1 = "foldl (check_required data) w [''tab'', ''page'', ''settings'']"
  have can: "canAddNewProject c ?w1"
    using assms by (simp add: canAddNewProject_def)
  have name: "fst (makeProjectStore c None ?w1) = fst (makeProjectStore c None w)"
    by (simp add: makeProjectStore_def Let_def)
  show ?thesis
    by (simp only: importNewProject_def Let_def addNewProject_allowed [OF can] list.case
        option.case prod.case name fst_conv snd_conv)
qed

lemma addProjectFromTemplate_blocked:
  "\<not> canAddNewProject c w \<Longrightarrow>
   addProjectFromTemplate c template w =
     (emit_alert ''danger'' ''Download the desktop app to unlock more tabs.'' w, Returned)"
  by (simp add: addProjectFromTemplate_def addNewProject_blocked)

lemma page_import_mutator:
  "get data ''page'' = Inr v \<Longrightarrow> page (fst (import_mutator data state)) = v"
  by (simp add: import_mutator_def Let_def split: sum.splits)

lemma get_Obj_Inr: "has data key \<Longrightarrow> \<exists>v. get data key = Inr v"
  by (cases data) (auto split: option.splits)

text \<open>
  How the mutator of the import ends: it throws exactly when \<open>data.tab.name\<close>
  cannot be read.
\<close>

lemma snd_import_mutator:
  "snd (import_mutator data state) =
     (case get data ''tab'' of
        Inl e \<Rightarrow> Threw e
      | Inr data_tab \<Rightarrow> (case get data_tab ''name'' of Inl e \<Rightarrow> Threw e | Inr v \<Rightarrow> Returned))"
  by (cases data) (simp_all add: import_mutator_def Let_def split: sum.splits option.splits)

lemma importNewProject_missing_tab:
  assumes "canAddNewProject c w" and "get data ''tab'' = Inr Undefined"
  shows "snd (importNewProject c (Some data # others) w) = Threw TypeError"
  by (simp add: importNewProject_allowed [OF assms(1)] snd_import_mutator assms(2))

text \<open>The collection after an import, whatever the picker gave.\<close>

lemma projects_importNewProject:
  "projects (fst (importNewProject c files w)) =
     (case files of
        Some data # _ \<Rightarrow>
          if canAddNewProject c w then projects w @ [fst (makeProjectStore c None w)]
          else projects w
      | _ \<Rightarrow> projects w)"
proof (cases files)
  case Nil
  then show ?thesis by (simp add: importNewProject_def)
next
  case (Cons f fs)
  show ?thesis
  proof (cases f)
    case None
    with Cons show ?thesis by (simp add: importNewProject_def)
  next
    case (Some data)
    show ?thesis
    proof (cases "canAddNewProject c w")
      case True
      then have can:
        "canAddNewProject c (foldl (check_required data) w [''tab'', ''page'', ''settings''])"
        by (simp add: canAddNewProject_def)
      have name: "fst (makeProjectStore c None
          (foldl (check_required data) w [''tab'', ''page'', ''settings''])) =
          fst (makeProjectStore c None w)"
        by (simp add: makeProjectStore_def Let_def)
      have "projects (fst (importNewProject c (Some data # fs) w)) =
          projects w @ [fst (makeProjectStore c None w)]"
        unfolding importNewProject_allowed [OF True] projects_patch
          projects_addNewProject_allowed [OF can] name
        by (simp only: foldl_check_required_frame)
      with True Cons Some show ?thesis by simp
    next
      case False
      with Cons Some show ?thesis by (simp add: importNewProject_blocked)
    qed
  qed
qed

text \<open>
  C10. When \<open>canAddNewProject\<close> is false, \<open>importNewProject\<close> on a file that
  was chosen and parsed, and \<open>addProjectFromTemplate\<close>, both return without
  an exception, leave the collection and every store as they were, and emit
  the plan-limit alert last: after the alerts of the missing keys for the
  import, alone for the template. This holds for any parsed value and any
  template, \<open>null\<close> included, since nothing is read from them once no project
  came back.
\<close>

theorem plan_limit_blocks_import_and_template:
  assumes "\<not> canAddNewProject c w"
  shows
    "snd (importNewProject c (Some data # others) w) = Returned \<and>
     projects (fst (importNewProject c (Some data # others) w)) = projects w \<and>
     stores (fst (importNewProject c (Some data # others) w)) = stores w \<and>
     alerts (fst (importNewProject c (Some data # others) w)) =
       alerts w @
       map (\<lambda>k. (''danger'', ''Error importing configuration. Required data is missing.''))
         (filter (\<lambda>k. \<not> has data k) [''tab'', ''page'', ''settings'']) @
       [(''danger'', ''Download the desktop app to unlock more tabs.'')] \<and>
     snd (addProjectFromTemplate c template w) = Returned \<and>
     projects (fst (addProjectFromTemplate c template w)) = projects w \<and>
     stores (fst (addProjectFromTemplate c template w)) = stores w \<and>
     alerts (fst (addProjectFromTemplate c template w)) =
       alerts w @ [(''danger'', ''Download the desktop app to unlock more tabs.'')]"
proof -
  let ?w1 = "foldl (check_required data) w [''tab'', ''page'', ''settings'']"
  have imp: "importNewProject c (Some data # others) w =
      (emit_alert ''danger'' ''Download the desktop app to unlock more tabs.'' ?w1, Returned)"
    using assms by (rule importNewProject_blocked)
  have tpl: "addProjectFromTemplate c template w =
      (emit_alert ''danger'' ''Download the desktop app to unlock more tabs.'' w, Returned)"
    using assms by (rule addProjectFromTemplate_blocked)
  have a1: "alerts ?w1 = alerts w @
       map (\<lambda>k. (''danger'', ''Error importing configuration. Required data is missing.''))
         (filter (\<lambda>k. \<not> has data k) [''tab'', ''page'', ''settings''])"
    by (rule alerts_foldl_check_required)
  have s1: "stores ?w1 = stores w" by (rule foldl_check_required_frame)
  have p1: "projects ?w1 = projects w" by (rule foldl_check_required_frame)
  show ?thesis
    unfolding imp tpl fst_conv snd_conv
    by (simp add: emit_alert_def a1 s1 p1 del: foldl.simps filter.simps)
qed

theorem plan_limit_blocks_import_and_template_witness:
  "\<not> canAddNewProject web (world_of [''pages/a'', ''pages/b'']) \<and>
   snd (importNewProject web [Some file_without_settings] (world_of [''pages/a'', ''pages/b''])) =
     Returned \<and>
   projects (fst (importNewProject web [Some file_without_settings]
       (world_of [''pages/a'', ''pages/b'']))) = [''pages/a'', ''pages/b''] \<and>
   alerts (fst (importNewProject web [Some file_without_settings]
       (world_of [''pages/a'', ''pages/b'']))) =
     [(''danger'', ''Error importing configuration. Required data is missing.''),
      (''danger'', ''Download the desktop app to unlock more tabs.'')] \<and>
   alerts (fst (addProjectFromTemplate web file_without_settings
       (world_of [''pages/a'', ''pages/b'']))) =
     [(''danger'', ''Download the desktop app to unlock more tabs.'')]"
proof -
  have blocked: "\<not> canAddNewProject web (world_of [''pages/a'', ''pages/b''])"
    by (simp add: canAddNewProject_def web_def world_of_def)
  show ?thesis
    using blocked
      plan_limit_blocks_import_and_template [OF blocked, of file_without_settings "[]"
        file_without_settings]
    by (simp add: world_of_def file_without_settings_def)
qed

text \<open>
  C7. A parsed file that has \<open>tab\<close> and \<open>page\<close> and lacks \<open>settings\<close>,
  imported while \<open>canAddNewProject\<close> holds: the collection is the old one with
  the new project appended, one alert was emitted (the import error, once),
  and the new project carries the page of the file.
\<close>

theorem importNewProject_missing_settings:
  assumes "has data ''tab''" and "has data ''page''" and "\<not> has data ''settings''"
    and "canAddNewProject c w"
  shows
    "projects (fst (importNewProject c (Some data # others) w)) =
       projects w @ [fst (makeProjectStore c None w)] \<and>
     alerts (fst (importNewProject c (Some data # others) w)) =
       alerts w @ [(''danger'', ''Error importing configuration. Required data is missing.'')] \<and>
     get data ''page'' =
       Inr (page (stores (fst (importNewProject c (Some data # others) w))
                    (fst (makeProjectStore c None w))))"
proof -
  let ?w1 = "foldl (check_required data) w [''tab'', ''page'', ''settings'']"
  let ?p = "fst (makeProjectStore c None w)"
  have imp: "importNewProject c (Some data # others) w =
      patch ?p (import_mutator data) (snd (addNewProject c None ?w1))"
    using assms(4) by (rule importNewProject_allowed)
  have can: "canAddNewProject c ?w1"
    using assms(4) by (simp add: canAddNewProject_def)
  have name: "fst (makeProjectStore c None ?w1) = ?p"
    by (simp add: makeProjectStore_def Let_def)
  have a1: "alerts ?w1 =
      alerts w @ [(''danger'', ''Error importing configuration. Required data is missing.'')]"
    using assms(1-3) by (simp add: alerts_check_required)
  have projs: "projects (fst (importNewProject c (Some data # others) w)) = projects w @ [?p]"
    unfolding imp projects_patch projects_addNewProject_allowed [OF can] name
    by (simp only: foldl_check_required_frame)
  have alrt: "alerts (fst (importNewProject c (Some data # others) w)) =
      alerts w @ [(''danger'', ''Error importing configuration. Required data is missing.'')]"
    unfolding imp alerts_patch alerts_addNewProject_allowed [OF can] by (rule a1)
  from assms(2) obtain v where v: "get data ''page'' = Inr v"
    using get_Obj_Inr by blast
  have "page (stores (fst (importNewProject c (Some data # others) w)) ?p) = v"
    unfolding imp stores_patch by (simp add: page_import_mutator [OF v])
  with v projs alrt show ?thesis by simp
qed

theorem importNewProject_missing_settings_witness:
  "has file_without_settings ''tab'' \<and> has file_without_settings ''page'' \<and>
   \<not> has file_without_settings ''settings'' \<and>
   canAddNewProject web (world_of [''pages/a'']) \<and>
   projects (fst (importNewProject web [Some file_without_settings] (world_of [''pages/a'']))) =
     [''pages/a'', ''pages/u1''] \<and>
   alerts (fst (importNewProject web [Some file_without_settings] (world_of [''pages/a'']))) =
     [(''danger'', ''Error importing configuration. Required data is missing.'')] \<and>
   page (stores (fst (importNewProject web [Some file_without_settings] (world_of [''pages/a''])))
           ''pages/u1'') = Obj [(''orientation'', Str ''portrait'')]"
proof -
  have h: "has file_without_settings ''tab''" "has file_without_settings ''page''"
    "\<not> has file_without_settings ''settings''"
    by (simp_all add: file_without_settings_def)
  have can: "canAddNewProject web (world_of [''pages/a''])"
    by (simp add: canAddNewProject_def world_of_def)
  have name: "fst (makeProjectStore web None (world_of [''pages/a''])) = ''pages/u1''"
    by (simp add: makeProjectStore_def Let_def web_def startsWith_def namespace_def)
  have pg: "get file_without_settings ''page'' = Inr (Obj [(''orientation'', Str ''portrait'')])"
    by (simp add: file_without_settings_def)
  show ?thesis
    using h can importNewProject_missing_settings [OF h can, of "[]"]
    unfolding name pg
    by (simp add: world_of_def)
qed

text \<open>
  C3. An import of a file whose \<open>page.orientation\<close> is \<open>portrait\<close> or
  \<open>landscape\<close> should yield a project of orientation \<open>left\<close>. The source
  does not do so: \<open>importNewProject\<close> assigns \<open>data.page\<close> as it is. On a
  parsed file whose \<open>page.orientation\<close> is \<open>portrait\<close>, the project the
  import creates still has the orientation \<open>portrait\<close>, while
  \<open>addProjectFromTemplate\<close>, which ports the old values after the same
  assignments, gives \<open>left\<close> on the same value.
\<close>

theorem importNewProject_keeps_legacy_orientation:
  "snd (importNewProject web [Some legacy_file] (world_of [])) = Returned \<and>
   projects (fst (importNewProject web [Some legacy_file] (world_of []))) = [''pages/u1''] \<and>
   get (page (stores (fst (importNewProject web [Some legacy_file] (world_of []))) ''pages/u1''))
     ''orientation'' = Inr (Str ''portrait'') \<and>
   get (page (stores (fst (addProjectFromTemplate web legacy_file (world_of []))) ''pages/u1''))
     ''orientation'' = Inr (Str ''left'')"
  by (simp add: importNewProject_def addProjectFromTemplate_def addNewProject_def
      canAddNewProject_def makeProjectStore_def load_def persisted_def setTabFromProject_def
      patch_def import_mutator_def template_mutator_def check_required_def legacy_file_def
      world_of_def web_def startsWith_def namespace_def Let_def)

text \<open>
  C4. No exception of \<open>importNewProject\<close> should reach the caller, also when
  a required key is missing. The source breaks this on a parsed object
  without \<open>tab\<close> (with room for a project): the import reports the missing
  key, adds the project and then reads \<open>data.tab.name\<close> through \<open>undefined\<close>,
  and a \<open>TypeError\<close> leaves the function.
\<close>

theorem importNewProject_without_tab_throws:
  "snd (importNewProject web [Some file_without_tab] (world_of [])) = Threw TypeError \<and>
   projects (fst (importNewProject web [Some file_without_tab] (world_of []))) = [''pages/u1''] \<and>
   alerts (fst (importNewProject web [Some file_without_tab] (world_of []))) =
     [(''danger'', ''Error importing configuration. Required data is missing.'')]"
  by (simp add: importNewProject_def addNewProject_def canAddNewProject_def
      makeProjectStore_def load_def persisted_def setTabFromProject_def patch_def
      import_mutator_def check_required_def emit_alert_def console_error_def
      file_without_tab_def world_of_def web_def startsWith_def namespace_def Let_def)

subsection \<open>The names of the stores and hydration\<close>

lemma fst_makeProjectStore:
  "fst (makeProjectStore c ident w) =
     (let i = (case ident of None \<Rightarrow> uuid c | Some given \<Rightarrow> given)
      in if startsWith i namespace then i else namespace @ i)"
  by (simp add: makeProjectStore_def Let_def)

lemma startsWith_append [simp]: "startsWith (t @ s) t"
  by (simp add: startsWith_def)

lemma makeProjectStore_namespaced:
  "startsWith key namespace \<Longrightarrow> makeProjectStore c (Some key) w = (key, load c key w)"
  by (simp add: makeProjectStore_def Let_def)

lemma make_stores_namespaced:
  "\<forall>key \<in> set keys. startsWith key namespace \<Longrightarrow>
   fst (make_stores c keys w) = keys \<and>
   projects (snd (make_stores c keys w)) = projects w \<and>
   localStorage (snd (make_stores c keys w)) = localStorage w \<and>
   stores (snd (make_stores c keys w)) =
     (\<lambda>name. if name \<in> set keys then persisted c w name else stores w name)"
proof (induction keys arbitrary: w)
  case Nil
  then show ?case by simp
next
  case (Cons key keys)
  then have k: "startsWith key namespace" and ks: "\<forall>key \<in> set keys. startsWith key namespace"
    by simp_all
  note IH = Cons.IH [OF ks, of "load c key w"]
  show ?case
    using IH by (auto simp: makeProjectStore_namespaced [OF k] fun_eq_iff split: prod.splits)
qed

lemma getPagesFromStorage_namespaced:
  "\<forall>key \<in> set (getPagesFromStorage w). startsWith key namespace"
  by (simp add: getPagesFromStorage_def)

lemma getPagesFromStorage_persisted:
  assumes "key \<in> set (getPagesFromStorage w)"
  shows "map_of (localStorage w) key = Some (persisted c w key)"
proof -
  from assms have "key \<in> fst ` set (localStorage w)"
    by (auto simp: getPagesFromStorage_def)
  then obtain st where "map_of (localStorage w) key = Some st"
    by (metis domD dom_map_of_conv_image_fst)
  then show ?thesis by (simp add: persisted_def)
qed

lemma make_stores_getPagesFromStorage:
  "fst (make_stores c (getPagesFromStorage w) w) = getPagesFromStorage w \<and>
   projects (snd (make_stores c (getPagesFromStorage w) w)) = projects w \<and>
   localStorage (snd (make_stores c (getPagesFromStorage w) w)) = localStorage w \<and>
   stores (snd (make_stores c (getPagesFromStorage w) w)) =
     (\<lambda>name. if name \<in> set (getPagesFromStorage w) then persisted c w name else stores w name)"
  using getPagesFromStorage_namespaced by (rule make_stores_namespaced)

lemma projects_hydrateFromStorage:
  "projects (hydrateFromStorage c w) =
     sort_key (\<lambda>p. order_key (tab (stores (hydrateFromStorage c w) p))) (getPagesFromStorage w)"
  using make_stores_getPagesFromStorage [of c w]
  by (simp add: hydrateFromStorage_def sortBy_def case_prod_beta)

lemma stores_hydrateFromStorage:
  "stores (hydrateFromStorage c w) =
     (\<lambda>name. if name \<in> set (getPagesFromStorage w) then persisted c w name else stores w name)"
  using make_stores_getPagesFromStorage [of c w]
  by (simp add: hydrateFromStorage_def case_prod_beta)

lemma getPagesFromStorage_stored_world:
  "getPagesFromStorage stored_world = [''pages/b'', ''pages/a'', ''pages/c'']"
  by (simp add: getPagesFromStorage_def stored_world_def startsWith_def namespace_def)

text \<open>
  C9. The name under which \<open>makeProjectStore\<close> registers a store is the id
  itself when the id starts with \<open>pages/\<close>, and \<open>pages/\<close> followed by the id
  otherwise, where the id is the one given or, when none is given, the fresh
  \<open>uuid\<close>. It always starts with \<open>pages/\<close>, and a name it has produced is
  registered unchanged when it is handed back, so no second prefix is ever
  added. The call leaves the store of exactly that name loaded, with the
  state local storage holds under that name or else the defaults, and leaves
  every other store, local storage and the collection as they were. The stores \<open>hydrateFromStorage\<close> makes from the namespaced storage
  keys are named by exactly those keys: the collection after hydration holds
  the same keys, each as often as storage lists it, and the store of each key
  holds the state stored under that key.
\<close>

theorem makeProjectStore_name:
  "fst (makeProjectStore c (Some i) w) = (if startsWith i namespace then i else namespace @ i) \<and>
   fst (makeProjectStore c None w) =
     (if startsWith (uuid c) namespace then uuid c else namespace @ uuid c) \<and>
   startsWith (fst (makeProjectStore c ident w)) namespace \<and>
   fst (makeProjectStore c' (Some (fst (makeProjectStore c ident w))) w') =
     fst (makeProjectStore c ident w) \<and>
   stores (snd (makeProjectStore c ident w)) =
     (stores w)
       (fst (makeProjectStore c ident w) :=
          (case map_of (localStorage w) (fst (makeProjectStore c ident w)) of
             Some state \<Rightarrow> state
           | None \<Rightarrow> defaults c)) \<and>
   localStorage (snd (makeProjectStore c ident w)) = localStorage w \<and>
   projects (snd (makeProjectStore c ident w)) = projects w \<and>
   fst (make_stores c (getPagesFromStorage w) w) = getPagesFromStorage w \<and>
   mset (projects (hydrateFromStorage c w)) = mset (getPagesFromStorage w) \<and>
   (\<forall>key \<in> set (getPagesFromStorage w).
      map_of (localStorage w) key = Some (stores (hydrateFromStorage c w) key))"
proof (intro conjI ballI)
  show "fst (makeProjectStore c (Some i) w) = (if startsWith i namespace then i else namespace @ i)"
    by (simp add: fst_makeProjectStore)
  show "fst (makeProjectStore c None w) =
     (if startsWith (uuid c) namespace then uuid c else namespace @ uuid c)"
    by (simp add: fst_makeProjectStore)
  show pre: "startsWith (fst (makeProjectStore c ident w)) namespace"
    by (simp add: fst_makeProjectStore Let_def)
  show "fst (makeProjectStore c' (Some (fst (makeProjectStore c ident w))) w') =
     fst (makeProjectStore c ident w)"
    using pre by (simp add: makeProjectStore_namespaced)
  show "stores (snd (makeProjectStore c ident w)) =
     (stores w)
       (fst (makeProjectStore c ident w) :=
          (case map_of (localStorage w) (fst (makeProjectStore c ident w)) of
             Some state \<Rightarrow> state
           | None \<Rightarrow> defaults c))"
    by (simp add: makeProjectStore_def Let_def persisted_def)
  show "localStorage (snd (makeProjectStore c ident w)) = localStorage w"
    by (simp add: makeProjectStore_def Let_def)
  show "projects (snd (makeProjectStore c ident w)) = projects w"
    by (simp add: makeProjectStore_def Let_def)
  show "fst (make_stores c (getPagesFromStorage w) w) = getPagesFromStorage w"
    using make_stores_getPagesFromStorage by blast
  show "mset (projects (hydrateFromStorage c w)) = mset (getPagesFromStorage w)"
    by (simp add: projects_hydrateFromStorage)
next
  fix key assume "key \<in> set (getPagesFromStorage w)"
  then show "map_of (localStorage w) key = Some (stores (hydrateFromStorage c w) key)"
    by (simp add: stores_hydrateFromStorage getPagesFromStorage_persisted)
qed

theorem makeProjectStore_name_witness:
  "fst (makeProjectStore web (Some ''pages/a'') stored_world) = ''pages/a'' \<and>
   fst (makeProjectStore web (Some ''a'') stored_world) = ''pages/a'' \<and>
   stores (snd (makeProjectStore web (Some ''a'') stored_world)) ''pages/a'' =
     project_at (Some 0) 30 \<and>
   stores (snd (makeProjectStore web (Some ''a'') stored_world)) ''a'' = blank_project \<and>
   stores (snd (makeProjectStore web (Some ''z'') stored_world)) ''pages/z'' = blank_project \<and>
   ''pages/c'' \<in> set (getPagesFromStorage stored_world) \<and>
   map_of (localStorage stored_world) ''pages/c'' =
     Some (stores (hydrateFromStorage web stored_world) ''pages/c'')"
proof -
  note a = makeProjectStore_name [of web "''a''" stored_world "Some ''a''" web stored_world]
  note z = makeProjectStore_name [of web "''z''" stored_world "Some ''z''" web stored_world]
  note pa = makeProjectStore_name [of web "''pages/a''" stored_world None web stored_world]
  have n: "fst (makeProjectStore web (Some ''pages/a'') stored_world) = ''pages/a''"
    "fst (makeProjectStore web (Some ''a'') stored_world) = ''pages/a''"
    "fst (makeProjectStore web (Some ''z'') stored_world) = ''pages/z''"
    using pa a z by (simp_all add: startsWith_def namespace_def)
  have lk: "map_of (localStorage stored_world) ''pages/a'' = Some (project_at (Some 0) 30)"
    "map_of (localStorage stored_world) ''pages/z'' = None"
    by (simp_all add: stored_world_def)
  have st: "stores stored_world = (\<lambda>name. blank_project)" "defaults web = blank_project"
    by (simp_all add: stored_world_def web_def)
  from a have "stores (snd (makeProjectStore web (Some ''a'') stored_world)) =
      (stores stored_world)
        (fst (makeProjectStore web (Some ''a'') stored_world) :=
           (case map_of (localStorage stored_world)
                   (fst (makeProjectStore web (Some ''a'') stored_world)) of
              Some state \<Rightarrow> state | None \<Rightarrow> defaults web))"
    by blast
  then have sa: "stores (snd (makeProjectStore web (Some ''a'') stored_world)) =
      (\<lambda>name. blank_project)(''pages/a'' := project_at (Some 0) 30)"
    by (simp add: n lk st)
  from z have "stores (snd (makeProjectStore web (Some ''z'') stored_world)) =
      (stores stored_world)
        (fst (makeProjectStore web (Some ''z'') stored_world) :=
           (case map_of (localStorage stored_world)
                   (fst (makeProjectStore web (Some ''z'') stored_world)) of
              Some state \<Rightarrow> state | None \<Rightarrow> defaults web))"
    by blast
  then have sz: "stores (snd (makeProjectStore web (Some ''z'') stored_world)) =
      (\<lambda>name. blank_project)(''pages/z'' := blank_project)"
    by (simp add: n lk st)
  have h: "''pages/c'' \<in> set (getPagesFromStorage stored_world)"
    by (simp add: getPagesFromStorage_stored_world)
  have "map_of (localStorage stored_world) ''pages/c'' =
     Some (stores (hydrateFromStorage web stored_world) ''pages/c'')"
    using a h by blast
  with n sa sz h show ?thesis by simp
qed

text \<open>
  C5, as amended. After \<open>hydrateFromStorage\<close> the collection holds the storage
  keys that start with \<open>pages/\<close>, each as often as storage lists it, and each
  store holds the state stored under its key. The collection is in ascending
  order of the sort key, which is \<open>tab.order\<close>, or \<open>tab.created_at\<close> where
  \<open>tab.order\<close> is absent. Projects with equal sort keys stay in the order in
  which storage lists their keys (the sort is stable); \<open>created_at\<close> plays no
  part between them.
\<close>

theorem hydrateFromStorage_sorted_stable:
  "mset (projects (hydrateFromStorage c w)) = mset (getPagesFromStorage w) \<and>
   sorted (map (\<lambda>p. order_key (tab (stores (hydrateFromStorage c w) p)))
             (projects (hydrateFromStorage c w))) \<and>
   (\<forall>k. filter (\<lambda>p. order_key (tab (stores (hydrateFromStorage c w) p)) = k)
           (projects (hydrateFromStorage c w)) =
         filter (\<lambda>p. order_key (tab (stores (hydrateFromStorage c w) p)) = k)
           (getPagesFromStorage w)) \<and>
   (\<forall>p \<in> set (getPagesFromStorage w).
      map_of (localStorage w) p = Some (stores (hydrateFromStorage c w) p))"
proof (intro conjI allI ballI)
  let ?key = "\<lambda>p. order_key (tab (stores (hydrateFromStorage c w) p))"
  have ps: "projects (hydrateFromStorage c w) = sort_key ?key (getPagesFromStorage w)"
    by (rule projects_hydrateFromStorage)
  show "mset (projects (hydrateFromStorage c w)) = mset (getPagesFromStorage w)"
    by (simp add: ps)
  show "sorted (map ?key (projects (hydrateFromStorage c w)))"
    unfolding ps by (rule sorted_sort_key)
  show "filter (\<lambda>p. ?key p = k) (projects (hydrateFromStorage c w)) =
        filter (\<lambda>p. ?key p = k) (getPagesFromStorage w)" for k
    unfolding ps by (rule sort_key_stable)
next
  fix p assume "p \<in> set (getPagesFromStorage w)"
  then show "map_of (localStorage w) p = Some (stores (hydrateFromStorage c w) p)"
    by (simp add: stores_hydrateFromStorage getPagesFromStorage_persisted)
qed

theorem hydrateFromStorage_sorted_stable_witness:
  "getPagesFromStorage stored_world = [''pages/b'', ''pages/a'', ''pages/c''] \<and>
   mset (projects (hydrateFromStorage web stored_world)) =
     mset [''pages/b'', ''pages/a'', ''pages/c''] \<and>
   sorted (map (\<lambda>p. order_key (tab (stores (hydrateFromStorage web stored_world) p)))
             (projects (hydrateFromStorage web stored_world))) \<and>
   map_of (localStorage stored_world) ''pages/a'' =
     Some (stores (hydrateFromStorage web stored_world) ''pages/a'')"
  using hydrateFromStorage_sorted_stable [of web stored_world]
  by (simp add: getPagesFromStorage_stored_world)

text \<open>
  C5 as it was stated, with ties in \<open>tab.order\<close> broken by \<open>created_at\<close>,
  fails: two stored projects of order 0, the first in storage created later
  than the second, come out in storage order.
\<close>

lemma getPagesFromStorage_tied_world:
  "getPagesFromStorage tied_world = [''pages/a'', ''pages/b'']"
  by (simp add: getPagesFromStorage_def tied_world_def startsWith_def namespace_def)

lemma stores_hydrate_tied_world:
  "stores (hydrateFromStorage web tied_world) ''pages/a'' = project_at (Some 0) 5"
  "stores (hydrateFromStorage web tied_world) ''pages/b'' = project_at (Some 0) 3"
  by (simp_all add: stores_hydrateFromStorage getPagesFromStorage_tied_world persisted_def)
     (simp_all add: tied_world_def)

lemma projects_hydrate_tied_world:
  "projects (hydrateFromStorage web tied_world) = [''pages/a'', ''pages/b'']"
  by (simp add: projects_hydrateFromStorage getPagesFromStorage_tied_world
      stores_hydrate_tied_world order_key_def project_at_def)

theorem hydrateFromStorage_ties_counterexample:
  "projects (hydrateFromStorage web tied_world) = [''pages/a'', ''pages/b''] \<and>
   \<not> ordered_with_ties_by_created_at (hydrateFromStorage web tied_world)"
  by (simp add: ordered_with_ties_by_created_at_def projects_hydrate_tied_world
      stores_hydrate_tied_world order_key_def project_at_def)

subsection \<open>The collection holds each store once\<close>

text \<open>
  The names in the collection stay pairwise different as long as a project is
  added under a name the collection does not hold yet (a fresh \<open>uuid\<close>):
  deleting only removes, and hydration takes the keys of storage, which are
  pairwise different. \<open>addNewProject\<close> with an id the collection already holds
  puts the same store into the collection a second time.
\<close>

lemma distinct_array_splice:
  "distinct xs \<Longrightarrow> distinct (array_splice xs start n)"
  unfolding array_splice_def Let_def
  by (simp add: set_take_disj_set_drop_if_distinct)

lemma distinct_addNewProject:
  assumes "distinct (projects w)" and "fst (makeProjectStore c ident w) \<notin> set (projects w)"
  shows "distinct (projects (snd (addNewProject c ident w)))"
proof (cases "canAddNewProject c w")
  case True
  with assms show ?thesis by (simp add: projects_addNewProject_allowed)
next
  case False
  with assms show ?thesis by (simp add: addNewProject_blocked)
qed

lemma distinct_importNewProject:
  assumes "distinct (projects w)" and "fst (makeProjectStore c None w) \<notin> set (projects w)"
  shows "distinct (projects (fst (importNewProject c files w)))"
  using assms by (simp add: projects_importNewProject split: list.splits option.splits)

lemma distinct_deleteProject:
  assumes "distinct (projects w)"
  shows "distinct (projects (deleteProject c project index w))"
proof -
  define w2 where
    "w2 = (dispose project (clear project w))\<lparr>projects := array_splice (projects w) index 1\<rparr>"
  have d2: "distinct (projects w2)"
    using assms by (simp add: w2_def distinct_array_splice)
  have del: "deleteProject c project index w =
      (case projects w2 of [] \<Rightarrow> snd (addNewProject c None w2)
       | first # _ \<Rightarrow> setTabFromProject first w2)"
    by (simp add: deleteProject_def Let_def w2_def cong: list.case_cong)
  show ?thesis
  proof (cases "projects w2")
    case Nil
    then have "distinct (projects (snd (addNewProject c None w2)))"
      by (intro distinct_addNewProject) simp_all
    with Nil show ?thesis by (simp add: del)
  next
    case (Cons x xs)
    with d2 show ?thesis by (simp add: del)
  qed
qed

lemma distinct_hydrateFromStorage:
  "distinct (map fst (localStorage w)) \<Longrightarrow> distinct (projects (hydrateFromStorage c w))"
  by (simp add: projects_hydrateFromStorage getPagesFromStorage_def)

subsection \<open>Writing the tab order back\<close>

lemma set_order_simps [simp]:
  "projects (set_order w e) = projects w"
  "stores (set_order w (i, p)) =
     (stores w)(p := (stores w p)\<lparr>tab := (tab (stores w p))\<lparr>tab_order := Some (int i)\<rparr>\<rparr>)"
  by (simp_all add: set_order_def patch_def)

lemma projects_foldl_set_order [simp]:
  "projects (foldl set_order w es) = projects w"
  by (induction es arbitrary: w) simp_all

lemma stores_foldl_set_order_other:
  "q \<notin> set ps \<Longrightarrow> stores (foldl set_order w (enumerate n ps)) q = stores w q"
  by (induction ps arbitrary: n w) simp_all

lemma order_is_index_iff:
  "order_is_index w \<longleftrightarrow>
     (\<forall>i < length (projects w). tab_order (tab (stores w (projects w ! i))) = Some (int i))"
  unfolding order_is_index_def list_eq_iff_nth_eq by simp

lemma tab_order_foldl_set_order_last:
  "i < length ps \<Longrightarrow> ps ! i \<notin> set (drop (Suc i) ps) \<Longrightarrow>
   tab_order (tab (stores (foldl set_order w (enumerate n ps)) (ps ! i))) = Some (int (n + i))"
proof (induction ps arbitrary: n w i)
  case Nil
  then show ?case by simp
next
  case (Cons p ps)
  show ?case
  proof (cases i)
    case 0
    with Cons.prems have "p \<notin> set ps" by simp
    then have "stores (foldl set_order (set_order w (n, p)) (enumerate (Suc n) ps)) p =
        stores (set_order w (n, p)) p"
      by (rule stores_foldl_set_order_other)
    with 0 show ?thesis by simp
  next
    case (Suc j)
    with Cons.prems have "j < length ps" "ps ! j \<notin> set (drop (Suc j) ps)" by simp_all
    then have "tab_order (tab (stores (foldl set_order (set_order w (n, p)) (enumerate (Suc n) ps))
        (ps ! j))) = Some (int (Suc n + j))"
      by (rule Cons.IH)
    with Suc show ?thesis by simp
  qed
qed

lemma distinct_nth_notin_drop:
  "distinct ps \<Longrightarrow> i < length ps \<Longrightarrow> ps ! i \<notin> set (drop (Suc i) ps)"
  by (metis Cons_nth_drop_Suc distinct.simps(2) distinct_drop)

text \<open>
  C6, as amended. Once the body of \<open>syncTabOrder\<close> has run, the collection is
  unchanged, and every project that the collection does not hold again at a
  later index has the \<open>tab.order\<close> of its index. So when the collection holds
  every store once, the \<open>tab.order\<close> of the project at each index is that
  index; a store held at several indices is one object and ends with the last
  of them.
\<close>

theorem syncTabOrder_index:
  "projects (syncTabOrder w) = projects w \<and>
   (\<forall>i < length (projects w).
      projects w ! i \<notin> set (drop (Suc i) (projects w)) \<longrightarrow>
      tab_order (tab (stores (syncTabOrder w) (projects w ! i))) = Some (int i)) \<and>
   (distinct (projects w) \<longrightarrow> order_is_index (syncTabOrder w))"
proof (intro conjI allI impI)
  show p: "projects (syncTabOrder w) = projects w"
    by (simp add: syncTabOrder_def)
  show last: "tab_order (tab (stores (syncTabOrder w) (projects w ! i))) = Some (int i)"
    if "i < length (projects w)" "projects w ! i \<notin> set (drop (Suc i) (projects w))" for i
    using tab_order_foldl_set_order_last [OF that, of w 0] by (simp add: syncTabOrder_def)
  show "order_is_index (syncTabOrder w)" if "distinct (projects w)"
    unfolding order_is_index_iff p
    using last distinct_nth_notin_drop [OF that] by blast
qed

theorem syncTabOrder_index_witness:
  "distinct (projects (world_of [''pages/B'', ''pages/A''])) \<and>
   projects (syncTabOrder (world_of [''pages/B'', ''pages/A''])) = [''pages/B'', ''pages/A''] \<and>
   tab_order (tab (stores (syncTabOrder (world_of [''pages/B'', ''pages/A''])) ''pages/A'')) = Some 1 \<and>
   tab_order (tab (stores (syncTabOrder (world_of [''pages/B'', ''pages/A''])) ''pages/B'')) = Some 0 \<and>
   order_is_index (syncTabOrder (world_of [''pages/B'', ''pages/A'']))"
proof -
  let ?w = "world_of [''pages/B'', ''pages/A'']"
  have l: "projects ?w = [''pages/B'', ''pages/A'']"
    by (simp add: world_of_def)
  have d: "distinct (projects ?w)"
    by (simp add: l)
  note inst = syncTabOrder_index [of ?w]
  from inst have p: "projects (syncTabOrder ?w) = [''pages/B'', ''pages/A'']"
    by (simp add: l)
  from inst d have o: "order_is_index (syncTabOrder ?w)"
    by blast
  then have "map (\<lambda>p. tab_order (tab (stores (syncTabOrder ?w) p))) [''pages/B'', ''pages/A''] =
      [Some 0, Some 1]"
    by (simp add: order_is_index_def p upt_rec)
  with d p o show ?thesis by simp
qed

text \<open>
  C6 as it was stated, for every collection, fails: \<open>addNewProject\<close> called
  twice with the id \<open>a\<close> leaves the store \<open>pages/a\<close> at the indices 0 and 1,
  and after \<open>syncTabOrder\<close> the project at index 0 has the order 1.
\<close>

lemma projects_twice_added: "projects twice_added = [''pages/a'', ''pages/a'']"
  by (simp add: twice_added_def addNewProject_def canAddNewProject_def makeProjectStore_def
      Let_def world_of_def web_def startsWith_def namespace_def)

theorem syncTabOrder_shared_store_counterexample:
  "projects twice_added = [''pages/a'', ''pages/a''] \<and>
   tab_order (tab (stores (syncTabOrder twice_added) (projects twice_added ! 0))) = Some 1 \<and>
   \<not> order_is_index (syncTabOrder twice_added)"
  by (simp add: order_is_index_def syncTabOrder_def projects_twice_added enumerate_eq_zip)

end
